theory Spec2Isabelle
  imports Main
begin

section \<open>Onboarding: the SystemCheck screen\<close>

text \<open>
  Source: \<^verbatim>\<open>src/modules/onboarding/components/SystemCheck.tsx\<close>.
  The component is a function of its props and of what the hook \<^verbatim>\<open>useSystemStats\<close>
  returns in this render; the model is that function, and its result is the data the
  JSX passes on: the props of the three \<^verbatim>\<open>Dependency\<close> rows, the props of the
  \<^verbatim>\<open>PrimaryButton\<close> and the handlers attached to the three buttons. Class names, images
  and the static links carry no data and are left out.
\<close>

subsection \<open>What the hook returns\<close>

text \<open>
  \<^verbatim>\<open>memory_limit\<close> is a JavaScript number. The model covers the integers of magnitude
  below \<open>2^53\<close>: each of them is a number of its own, and \<^verbatim>\<open>Number.prototype.toString\<close>
  prints its decimal digits. Larger integers (printed with the shortest digits that
  read back as the same number), fractional values, \<^verbatim>\<open>NaN\<close> and the infinities are outside
  the model, and no property below reads the printed digits of a value other than 0
  and 8. \<open>None\<close> stands for \<^verbatim>\<open>undefined\<close> (and \<^verbatim>\<open>null\<close>), at each of the three optional
  levels.
\<close>

record SystemStats =
  memory_limit :: "int option"

record AxiosResponse =
  data :: "SystemStats option"

text \<open>The destructuring \<^verbatim>\<open>{ data: response, isLoading }\<close> names the two fields.\<close>

record UseSystemStats =
  response :: "AxiosResponse option"
  isLoading :: bool

subsection \<open>Props\<close>

text \<open>\<open>'h\<close> is the type of the callbacks, which the component only passes on.\<close>

record 'h SystemCheckProps =
  handleCheckIsDockerRunning :: 'h
  isDockerRunning :: bool
  isServerRunning :: bool
  "back" :: 'h
  "next" :: 'h

text \<open>The children of a tooltip's \<^verbatim>\<open><div>\<close>: text and line breaks.\<close>

datatype node = Text string | Br

text \<open>
  The props a \<^verbatim>\<open>Dependency\<close> row receives. \<^verbatim>\<open>isLoading\<close> is passed to the Memory row
  only, so it is optional; \<^verbatim>\<open>name\<close> and \<^verbatim>\<open>id\<close> are written \<open>name_prop\<close> and
  \<open>id_prop\<close>.
\<close>

record DependencyProps =
  isLoading_prop :: "bool option"
  isRunning :: bool
  status :: string
  name_prop :: string
  id_prop :: string
  tooltip :: "node list"

record 'h SystemCheckView =
  back_onClick :: 'h
  docker_row :: DependencyProps
  daemon_row :: DependencyProps
  memory_row :: DependencyProps
  check_again_onClick :: 'h
  next_disabled :: bool
  next_onClick :: 'h

subsection \<open>The memory-limit string\<close>

text \<open>
  \<^verbatim>\<open>Number.prototype.toString\<close> on the integers of the model (magnitude below \<open>2^53\<close>):
  decimal digits, after a minus sign for a negative value.
\<close>

definition digit :: "nat \<Rightarrow> char" where
  "digit d = ''0123456789'' ! d"

fun nat_toString :: "nat \<Rightarrow> string" where
  "nat_toString n =
     (if n < 10 then [digit n] else nat_toString (n div 10) @ [digit (n mod 10)])"

definition Number_toString :: "int \<Rightarrow> string" where
  "Number_toString i =
     (if i < 0 then CHR ''-'' # nat_toString (nat (- i)) else nat_toString (nat i))"

text \<open>
  \<^verbatim>\<open>response?.data?.memory_limit\<close>: each \<^verbatim>\<open>?.\<close> yields \<^verbatim>\<open>undefined\<close> when what is
  on its left is \<^verbatim>\<open>undefined\<close>.
\<close>

definition memory_limit_of :: "AxiosResponse option \<Rightarrow> int option" where
  "memory_limit_of r =
     (case r of
        None \<Rightarrow> None
      | Some resp \<Rightarrow> (case data resp of None \<Rightarrow> None | Some d \<Rightarrow> memory_limit d))"

text \<open>The condition of \<^verbatim>\<open>? :\<close> is truthiness: \<^verbatim>\<open>undefined\<close> and \<open>0\<close> are falsy.\<close>

definition truthy :: "int option \<Rightarrow> bool" where
  "truthy v = (case v of None \<Rightarrow> False | Some n \<Rightarrow> n \<noteq> 0)"

text \<open>
  Line 21:
  \<^verbatim>\<open>const memoryLimit = response?.data?.memory_limit ? `${response?.data?.memory_limit}GiB` : "";\<close>
  The template reads the value a second time and prints it; \<^verbatim>\<open>undefined\<close> would print
  as \<open>undefined\<close>, in a branch the condition excludes.
\<close>

definition memoryLimit :: "AxiosResponse option \<Rightarrow> string" where
  "memoryLimit r =
     (if truthy (memory_limit_of r)
      then (case memory_limit_of r of
              Some n \<Rightarrow> Number_toString n @ ''GiB''
            | None \<Rightarrow> ''undefinedGiB'')
      else '''')"

subsection \<open>The component\<close>

definition SystemCheck :: "'h SystemCheckProps \<Rightarrow> UseSystemStats \<Rightarrow> 'h SystemCheckView" where
  "SystemCheck props q =
     \<lparr> back_onClick = back props,
       docker_row =
         \<lparr> isLoading_prop = None,
           isRunning = isDockerRunning props,
           status = (if isDockerRunning props then ''Found'' else ''Not Found''),
           name_prop = ''Docker'',
           id_prop = ''docker'',
           tooltip = [Text ''Prem App requires Docker installed and running.''] \<rparr>,
       daemon_row =
         \<lparr> isLoading_prop = None,
           isRunning = isServerRunning props,
           status = (if isServerRunning props then ''Running'' else ''Not Running''),
           name_prop = ''Daemon'',
           id_prop = ''daemon'',
           tooltip =
             [Text ''Prem App requires Prem Daemon to be up and running. '', Br,
              Text '' The Daemon is automatically started when docker is running.''] \<rparr>,
       memory_row =
         \<lparr> isLoading_prop = Some (isLoading q),
           isRunning = False,
           status = memoryLimit (response q),
           name_prop = ''Memory'',
           id_prop = ''memory'',
           tooltip =
             [Text ''Prem App you requires at least '', Br, Text '' '',
              Text (memoryLimit (response q)),
              Text '' of RAM allocated for Docker Engine.''] \<rparr>,
       check_again_onClick = handleCheckIsDockerRunning props,
       next_disabled = (\<not> (isDockerRunning props \<and> isServerRunning props)),
       next_onClick = next props \<rparr>"

text \<open>The hook's result when the probe answered with a memory limit, or with none.\<close>

definition stats_of :: "int option \<Rightarrow> bool \<Rightarrow> UseSystemStats" where
  "stats_of m l =
     \<lparr> response = Some \<lparr> data = Some \<lparr> memory_limit = m \<rparr> \<rparr>, isLoading = l \<rparr>"

section \<open>Services: the ServiceCard component\<close>

text \<open>
  Source: the \<^verbatim>\<open>ServiceCard\<close> component (\<^verbatim>\<open>unnamed/part_000\<close>). The model has one
  definition for each value the component computes: the status, the accessibility flag,
  the redirect link, the click handler, the interfaces passed to \<^verbatim>\<open>ServiceActions\<close>
  and the \<^verbatim>\<open>refetch\<close> callback.
\<close>

subsection \<open>Data\<close>

text \<open>
  The fields of a service that these computations read. \<^verbatim>\<open>id\<close> is written
  \<open>id_Service\<close>; the other fields (\<^verbatim>\<open>name\<close>, \<^verbatim>\<open>icon\<close>, \<^verbatim>\<open>beta\<close>, \<^verbatim>\<open>petals\<close>,
  \<^verbatim>\<open>needsUpdate\<close>, \<^verbatim>\<open>modelInfo\<close> and whatever the status classifier inspects) live in
  the record's extension. \<open>None\<close> is an absent (\<^verbatim>\<open>undefined\<close> or \<^verbatim>\<open>null\<close>) field.
\<close>

record Service =
  id_Service :: string
  serviceType :: "string option"
  interfaces :: "string list option"

text \<open>An entry of the interfaces collection; \<^verbatim>\<open>id\<close> is written \<open>id_Interface\<close>.\<close>

record Interface =
  id_Interface :: string

text \<open>
  Modelled from the spec: the type \<^verbatim>\<open>ServiceStatus\<close> is declared outside the files
  at hand. The spec describes a closed enumeration that contains \<^verbatim>\<open>coming_soon\<close> and
  other operational states whose exact set it leaves to the classifier; \<open>'s\<close> is the
  enumeration of those other states.
\<close>

datatype 's Status = coming_soon | operational 's

text \<open>
  Modelled from the spec: \<^verbatim>\<open>checkIfAccessible\<close> of \<^verbatim>\<open>shared/helpers/utils\<close>, which
  is not among the files at hand. ``\<^verbatim>\<open>coming_soon\<close> must map to not accessible. All
  other statuses currently in the enumeration map to accessible''; every status is
  listed, with no default case.
\<close>

fun checkIfAccessible :: "'s Status \<Rightarrow> bool" where
  "checkIfAccessible coming_soon = False"
| "checkIfAccessible (operational s) = True"

subsection \<open>Status, accessibility and the redirect link\<close>

text \<open>
  Line 21, \<^verbatim>\<open>const status = getServiceStatus(service);\<close>. The classifier is imported
  from \<^verbatim>\<open>shared/helpers/utils\<close> and is a parameter here.
\<close>

definition status_of ::
    "('z Service_scheme \<Rightarrow> 's Status) \<Rightarrow> 'z Service_scheme \<Rightarrow> 's Status" where
  "status_of getServiceStatus service = getServiceStatus service"

text \<open>
  Line 32, \<^verbatim>\<open>const isAccessible = checkIfAccessible(status);\<close>, for any gate \<open>gate\<close>
  in the place of the imported \<^verbatim>\<open>checkIfAccessible\<close>.
\<close>

definition isAccessible ::
    "('s Status \<Rightarrow> bool) \<Rightarrow> ('z Service_scheme \<Rightarrow> 's Status) \<Rightarrow> 'z Service_scheme \<Rightarrow> bool" where
  "isAccessible gate getServiceStatus service = gate (status_of getServiceStatus service)"

text \<open>
  Lines 33-36:
  \<^verbatim>\<open>status === "coming_soon" ? "/" : `/services/${serviceId}/${service.serviceType ?? "docker"}/detail`\<close>.
  The operator \<^verbatim>\<open>??\<close> takes its right operand only when the left one is absent.
\<close>

definition redirectLink ::
    "('z Service_scheme \<Rightarrow> 's Status) \<Rightarrow> 'z Service_scheme \<Rightarrow> string" where
  "redirectLink getServiceStatus service =
     (if status_of getServiceStatus service = coming_soon then ''/''
      else ''/services/'' @ id_Service service @ ''/'' @
           (case serviceType service of None \<Rightarrow> ''docker'' | Some t \<Rightarrow> t) @ ''/detail'')"

subsection \<open>The click on the card\<close>

text \<open>
  What a click can change: the event's \<^verbatim>\<open>defaultPrevented\<close> flag (the link navigates
  unless it is set) and the open flag of the warning modal.
\<close>

record ClickState =
  defaultPrevented :: bool
  isWarningModalOpen :: bool

text \<open>
  Modelled from the spec: \<^verbatim>\<open>openWarningModal\<close> of the hook \<^verbatim>\<open>useWarningModal\<close>, which
  is not among the files at hand. The warning affordance is ``a simple open/closed
  flag''; opening it intercepts the click: ``default navigation suppressed and a
  warning affordance opened instead''.
\<close>

definition openWarningModal :: "ClickState \<Rightarrow> ClickState" where
  "openWarningModal e = e\<lparr> defaultPrevented := True, isWarningModalOpen := True \<rparr>"

text \<open>
  Line 41, \<^verbatim>\<open>onClick={(e) => !isAccessible && openWarningModal(e)}\<close>: the right operand
  of \<^verbatim>\<open>&&\<close> runs only when the left one is true. The handler's value is not used.
\<close>

definition onClick ::
    "('s Status \<Rightarrow> bool) \<Rightarrow> ('z Service_scheme \<Rightarrow> 's Status) \<Rightarrow> 'z Service_scheme \<Rightarrow>
     ClickState \<Rightarrow> ClickState" where
  "onClick gate getServiceStatus service e =
     (if \<not> isAccessible gate getServiceStatus service then openWarningModal e else e)"

subsection \<open>The interfaces of a service\<close>

text \<open>\<^verbatim>\<open>Array.prototype.includes\<close>, on strings: is some element equal to \<open>x\<close>?\<close>

primrec Array_includes :: "'a list \<Rightarrow> 'a \<Rightarrow> bool" where
  "Array_includes [] x = False"
| "Array_includes (y # ys) x = (y = x \<or> Array_includes ys x)"

text \<open>
  Line 52,
  \<^verbatim>\<open>interfaces?.filter((app) => service.interfaces?.includes(app.id)) ?? []\<close>.
  \<open>apps\<close> is the \<^verbatim>\<open>data\<close> of \<^verbatim>\<open>useInterfaces()\<close>, \<open>None\<close> while it is not loaded. Without
  a list of ids the predicate's value is \<^verbatim>\<open>undefined\<close>, which \<^verbatim>\<open>filter\<close> takes as
  false.
\<close>

definition interfaces_prop ::
    "'y Interface_scheme list option \<Rightarrow> 'z Service_scheme \<Rightarrow> 'y Interface_scheme list" where
  "interfaces_prop apps service =
     (case apps of
        None \<Rightarrow> []
      | Some as \<Rightarrow>
          filter
            (\<lambda>app. case interfaces service of
                     None \<Rightarrow> False
                   | Some ids \<Rightarrow> Array_includes ids (id_Interface app))
            as)"

subsection \<open>Refresh\<close>

text \<open>A call that throws leaves the callback with the thrown value; \<open>Inl\<close> is that outcome.\<close>

datatype error = Thrown














section \<open>Properties of the onboarding screen\<close>

text \<open>
  C1. For every pair of booleans (isDockerRunning, isServerRunning), the Next button of
  the onboarding screen is enabled if and only if both are true; for every other
  combination it is disabled.
\<close>

theorem next_enabled_iff_both_running:
  "(\<not> next_disabled (SystemCheck props q)) = (isDockerRunning props \<and> isServerRunning props)"
  by (simp add: SystemCheck_def)

text \<open>
  C7. The disabled state of the Next button does not depend on the memory signal: two
  renders that agree on isDockerRunning and isServerRunning have the same disabled state,
  whatever the memory probe returned and whether it is still loading.
\<close>

theorem next_disabled_independent_of_memory:
  assumes "isDockerRunning props = isDockerRunning props'"
    and "isServerRunning props = isServerRunning props'"
  shows "next_disabled (SystemCheck props q) = next_disabled (SystemCheck props' q')"
  using assms by (simp add: SystemCheck_def)

theorem next_disabled_independent_of_memory_witness:
  "next_disabled
     (SystemCheck
        \<lparr> handleCheckIsDockerRunning = (), isDockerRunning = True, isServerRunning = True,
          back = (), next = () \<rparr>
        (stats_of (Some 8) False)) =
   next_disabled
     (SystemCheck
        \<lparr> handleCheckIsDockerRunning = (), isDockerRunning = True, isServerRunning = True,
          back = (), next = () \<rparr>
        \<lparr> response = None, isLoading = True \<rparr>)"
  using next_disabled_independent_of_memory
    [of "\<lparr> handleCheckIsDockerRunning = (), isDockerRunning = True, isServerRunning = True,
            back = (), next = () \<rparr>"
        "\<lparr> handleCheckIsDockerRunning = (), isDockerRunning = True, isServerRunning = True,
            back = (), next = () \<rparr>"
        "stats_of (Some 8) False" "\<lparr> response = None, isLoading = True \<rparr>"]
  by simp

text \<open>
  C8. The memory-limit string is \<open>8GiB\<close> when memory_limit is 8 and empty when
  memory_limit is undefined; the Memory row shows that string as its status.
\<close>

theorem memoryLimit_8_and_undefined:
  "memoryLimit (response (stats_of (Some 8) l)) = ''8GiB'' \<and>
   memoryLimit (response (stats_of None l)) = '''' \<and>
   status (memory_row (SystemCheck props (stats_of (Some 8) l))) = ''8GiB'' \<and>
   status (memory_row (SystemCheck props (stats_of None l))) = ''''"
  by (simp add: SystemCheck_def stats_of_def memoryLimit_def memory_limit_of_def truthy_def
      Number_toString_def digit_def)

text \<open>
  C9. When memory_limit is 0, a defined number, the memory-limit string is empty, as it
  is for an absent value, and not \<open>0GiB\<close>: the condition tests the value's truthiness.
\<close>

theorem memoryLimit_0_is_empty:
  "memoryLimit (response (stats_of (Some 0) l)) = '''' \<and>
   memoryLimit (response (stats_of (Some 0) l)) = memoryLimit (response (stats_of None l)) \<and>
   status (memory_row (SystemCheck props (stats_of (Some 0) l))) = '''' \<and>
   Number_toString 0 @ ''GiB'' = ''0GiB''"
  by (simp add: SystemCheck_def stats_of_def memoryLimit_def memory_limit_of_def truthy_def
      Number_toString_def digit_def)

text \<open>
  C10. The Memory row is rendered with isRunning false, for every memory_limit and
  every value of the loading flag.
\<close>

theorem memory_row_never_running:
  "isRunning (memory_row (SystemCheck props q)) = False"
  by (simp add: SystemCheck_def)

section \<open>Properties of the service card\<close>

lemma Array_includes_set: "Array_includes ys x = (x \<in> set ys)"
  by (induction ys) auto







text \<open>
  C2. The redirect link of a service is \<open>/\<close> when its status is \<^verbatim>\<open>coming_soon\<close>, and
  otherwise \<open>/services/{id}/{serviceType}/detail\<close>, with \<open>docker\<close> for the service type
  when the service declares none.
\<close>

theorem redirectLink_target:
  "(status_of getServiceStatus service = coming_soon \<longrightarrow>
      redirectLink getServiceStatus service = ''/'') \<and>
   (status_of getServiceStatus service \<noteq> coming_soon \<and> serviceType service = Some t \<longrightarrow>
      redirectLink getServiceStatus service =
        ''/services/'' @ id_Service service @ ''/'' @ t @ ''/detail'') \<and>
   (status_of getServiceStatus service \<noteq> coming_soon \<and> serviceType service = None \<longrightarrow>
      redirectLink getServiceStatus service =
        ''/services/'' @ id_Service service @ ''/docker/detail'')"
  by (simp add: redirectLink_def)

theorem redirectLink_target_witness:
  "redirectLink (\<lambda>s. coming_soon :: unit Status)
     \<lparr> id_Service = ''svc1'', serviceType = Some ''binary'', interfaces = None \<rparr> = ''/'' \<and>
   redirectLink (\<lambda>s. operational ())
     \<lparr> id_Service = ''svc1'', serviceType = Some ''binary'', interfaces = None \<rparr> =
     ''/services/svc1/binary/detail'' \<and>
   redirectLink (\<lambda>s. operational ())
     \<lparr> id_Service = ''svc1'', serviceType = None, interfaces = None \<rparr> =
     ''/services/svc1/docker/detail''"
  using
    redirectLink_target
      [of "\<lambda>s. coming_soon :: unit Status"
          "\<lparr> id_Service = ''svc1'', serviceType = Some ''binary'', interfaces = None \<rparr>"
          "''binary''"]
    redirectLink_target
      [of "\<lambda>s. operational ()"
          "\<lparr> id_Service = ''svc1'', serviceType = Some ''binary'', interfaces = None \<rparr>"
          "''binary''"]
    redirectLink_target
      [of "\<lambda>s. operational ()"
          "\<lparr> id_Service = ''svc1'', serviceType = None, interfaces = None \<rparr>"
          "''binary''"]
  by (simp add: status_of_def)

text \<open>
  C3. When the accessibility gate returns false for the service's status, the click is
  intercepted (the default navigation is suppressed) and the warning is opened; when
  the gate returns true, the click is not intercepted and no warning is opened: the
  handler leaves the event and the warning flag as they were.
\<close>

theorem click_intercepted_iff_not_accessible:
  "(\<not> gate (status_of getServiceStatus service) \<longrightarrow>
      defaultPrevented (onClick gate getServiceStatus service e) \<and>
      isWarningModalOpen (onClick gate getServiceStatus service e)) \<and>
   (gate (status_of getServiceStatus service) \<longrightarrow>
      onClick gate getServiceStatus service e = e)"
  by (simp add: onClick_def isAccessible_def openWarningModal_def)

theorem click_intercepted_iff_not_accessible_witness:
  "defaultPrevented
     (onClick checkIfAccessible (\<lambda>s. coming_soon :: unit Status)
        \<lparr> id_Service = ''svc1'', serviceType = None, interfaces = None \<rparr>
        \<lparr> defaultPrevented = False, isWarningModalOpen = False \<rparr>) \<and>
   isWarningModalOpen
     (onClick checkIfAccessible (\<lambda>s. coming_soon :: unit Status)
        \<lparr> id_Service = ''svc1'', serviceType = None, interfaces = None \<rparr>
        \<lparr> defaultPrevented = False, isWarningModalOpen = False \<rparr>) \<and>
   onClick checkIfAccessible (\<lambda>s. operational ())
     \<lparr> id_Service = ''svc1'', serviceType = None, interfaces = None \<rparr>
     \<lparr> defaultPrevented = False, isWarningModalOpen = False \<rparr> =
     \<lparr> defaultPrevented = False, isWarningModalOpen = False \<rparr>"
  using
    click_intercepted_iff_not_accessible
      [of checkIfAccessible "\<lambda>s. coming_soon :: unit Status"
          "\<lparr> id_Service = ''svc1'', serviceType = None, interfaces = None \<rparr>"
          "\<lparr> defaultPrevented = False, isWarningModalOpen = False \<rparr>"]
    click_intercepted_iff_not_accessible
      [of checkIfAccessible "\<lambda>s. operational ()"
          "\<lparr> id_Service = ''svc1'', serviceType = None, interfaces = None \<rparr>"
          "\<lparr> defaultPrevented = False, isWarningModalOpen = False \<rparr>"]
  by (simp add: status_of_def)

text \<open>
  C5. The interfaces of a service are the entries of the interfaces collection whose id
  is in the service's list of interface ids, in the collection's order; when the service
  has no such list, or the collection is not available, they are the empty list. The
  function has no error result.
\<close>

theorem interfaces_prop_filter:
  "(interfaces service = Some ids \<longrightarrow>
      interfaces_prop (Some as) service = filter (\<lambda>app. id_Interface app \<in> set ids) as) \<and>
   (interfaces service = None \<longrightarrow> interfaces_prop apps service = []) \<and>
   interfaces_prop None service = []"
  by (simp add: interfaces_prop_def Array_includes_set split: option.splits)

theorem interfaces_prop_filter_witness:
  "interfaces_prop
     (Some [\<lparr> id_Interface = ''a'' \<rparr>, \<lparr> id_Interface = ''b'' \<rparr>, \<lparr> id_Interface = ''c'' \<rparr>])
     \<lparr> id_Service = ''svc1'', serviceType = None, interfaces = Some [''a'', ''c''] \<rparr> =
     [\<lparr> id_Interface = ''a'' \<rparr>, \<lparr> id_Interface = ''c'' \<rparr>] \<and>
   interfaces_prop
     (Some [\<lparr> id_Interface = ''a'' \<rparr>, \<lparr> id_Interface = ''b'' \<rparr>, \<lparr> id_Interface = ''c'' \<rparr>])
     \<lparr> id_Service = ''svc1'', serviceType = None, interfaces = None \<rparr> = []"
  using
    interfaces_prop_filter
      [of "\<lparr> id_Service = ''svc1'', serviceType = None, interfaces = Some [''a'', ''c''] \<rparr>"
          "[''a'', ''c'']"
          "[\<lparr> id_Interface = ''a'' \<rparr>, \<lparr> id_Interface = ''b'' \<rparr>, \<lparr> id_Interface = ''c'' \<rparr>]"
          "None :: Interface list option"]
    interfaces_prop_filter
      [of "\<lparr> id_Service = ''svc1'', serviceType = None, interfaces = None \<rparr>"
          "[]"
          "[] :: Interface list"
          "Some [\<lparr> id_Interface = ''a'' \<rparr>, \<lparr> id_Interface = ''b'' \<rparr>, \<lparr> id_Interface = ''c'' \<rparr>]"]
  by auto



end
